theory Spec2Isabelle
  imports Complex_Main "HOL-Library.AList"
begin

section \<open>The auto-resetting environment wrapper \<open>Env\<close>\<close>

text \<open>
  Both \<^verbatim>\<open>src/rlrd/envs.py\<close> and \<^verbatim>\<open>src/agents/envs.py\<close> define a class \<open>Env\<close>
  that wraps a gym environment, resets it automatically when an episode ends and
  stores the last transition.

  The wrapped environment is external. It is modelled by its two methods acting on
  an explicit state of type \<open>'s\<close>: \<open>env_reset\<close> returns the new state and the
  initial observation, \<open>env_step\<close> returns the new state and the 4-tuple
  \<open>(next_state, reward, done, info)\<close>. The \<open>info\<close> dictionary is an association
  list from keys to values of type \<open>'v\<close> (Python dictionaries keep insertion order;
  \<open>AList.update\<close> overwrites in place or appends, as \<^verbatim>\<open>info[k] = v\<close> does).
\<close>

type_synonym 'v info = "(string \<times> 'v) list"

type_synonym ('o, 'v) transition = "'o \<times> real \<times> bool \<times> 'v info"

record ('s, 'o, 'a, 'v) gym_env =
  env_reset :: "'s \<Rightarrow> 's \<times> 'o"
  env_step :: "'s \<Rightarrow> 'a \<Rightarrow> 's \<times> ('o, 'v) transition"

text \<open>
  The instance attributes of \<open>Env\<close> in \<^verbatim>\<open>src/rlrd/envs.py\<close>: \<open>self.env\<close> (here the
  state of the wrapped environment), \<open>self.transition\<close> and \<open>self.store_env\<close>.
\<close>

record ('s, 'o, 'v) Env =
  env :: 's
  transition :: "('o, 'v) transition"
  store_env :: bool

text \<open>
  \<^verbatim>\<open>def observation(self, observation): return observation\<close>.
  Subclasses may override the method, so the functions below take the method that
  \<^verbatim>\<open>self.observation\<close> dispatches to as the argument \<open>obsf\<close>.
\<close>

definition Env_observation :: "'o \<Rightarrow> 'o" where
  "Env_observation observation = observation"

text \<open>\<^verbatim>\<open>def reset(self): return self.observation(self.env.reset())\<close>\<close>

definition Env_reset ::
  "('s, 'o, 'a, 'v) gym_env \<Rightarrow> ('o \<Rightarrow> 'o) \<Rightarrow> ('s, 'o, 'v) Env \<Rightarrow> ('s, 'o, 'v) Env \<times> 'o" where
  "Env_reset G obsf E =
     (case env_reset G (env E) of (s', ob) \<Rightarrow> (E\<lparr>env := s'\<rparr>, obsf ob))"

text \<open>
  \<^verbatim>\<open>
  def __init__(self, env, store_env=False):
      super().__init__(env)
      self.transition = (self.reset(), 0., True, {})
      self.store_env = store_env
  \<close>
  The argument \<open>s0\<close> is the state of the environment handed to the constructor.
\<close>

definition Env_init ::
  "('s, 'o, 'a, 'v) gym_env \<Rightarrow> ('o \<Rightarrow> 'o) \<Rightarrow> 's \<Rightarrow> bool \<Rightarrow> ('s, 'o, 'v) Env" where
  "Env_init G obsf s0 store =
     (case env_reset G s0 of (s', ob) \<Rightarrow>
        \<lparr>env = s', transition = (obsf ob, 0, True, []), store_env = store\<rparr>)"

text \<open>
  \<^verbatim>\<open>
  def step(self, action):
      next_state, reward, done, info = self.env.step(action)
      next_state = self.reset() if done else self.observation(next_state)
      self.transition = next_state, reward, done, info
      if self.store_env:
          info['env_state'] = pickle.dumps(get_env_state(self))
      return self.transition
  \<close>
  \<^verbatim>\<open>get_env_state\<close> lives in \<^verbatim>\<open>rlrd/batch_env.py\<close>, which is not among the sources;
  its composition with \<^verbatim>\<open>pickle.dumps\<close> is the parameter \<open>dump\<close>. The dictionary
  \<open>info\<close> is one object shared by the stored transition and the returned tuple, so
  the added key is visible in both.
\<close>

definition Env_step ::
  "('s, 'o, 'a, 'v) gym_env \<Rightarrow> ('o \<Rightarrow> 'o) \<Rightarrow> (('s, 'o, 'v) Env \<Rightarrow> 'v) \<Rightarrow>
     ('s, 'o, 'v) Env \<Rightarrow> 'a \<Rightarrow> ('s, 'o, 'v) Env \<times> ('o, 'v) transition" where
  "Env_step G obsf dump E action =
     (case env_step G (env E) action of (s1, next_state, reward, done, info) \<Rightarrow>
        let (E1, next_state') =
              (if done then Env_reset G obsf (E\<lparr>env := s1\<rparr>)
               else (E\<lparr>env := s1\<rparr>, obsf next_state));
            E2 = E1\<lparr>transition := (next_state', reward, done, info)\<rparr>;
            info' = (if store_env E2 then AList.update ''env_state'' (dump E2) info else info);
            E3 = E2\<lparr>transition := (next_state', reward, done, info')\<rparr>
        in (E3, transition E3))"

text \<open>
  The class \<open>Env\<close> of \<^verbatim>\<open>src/agents/envs.py\<close> has no \<open>store_env\<close> attribute:
  \<^verbatim>\<open>
  def __init__(self, env):
      super().__init__(env)
      self.transition = (self.reset(), 0., True, {})
  def step(self, action):
      next_state, reward, done, info = self.env.step(action)
      next_state = self.reset() if done else self.observation(next_state)
      self.transition = next_state, reward, done, info
      return self.transition
  \<close>
\<close>

record ('s, 'o, 'v) agents_Env =
  agents_env :: 's
  agents_transition :: "('o, 'v) transition"

definition agents_Env_reset ::
  "('s, 'o, 'a, 'v) gym_env \<Rightarrow> ('o \<Rightarrow> 'o) \<Rightarrow> ('s, 'o, 'v) agents_Env \<Rightarrow>
     ('s, 'o, 'v) agents_Env \<times> 'o" where
  "agents_Env_reset G obsf E =
     (case env_reset G (agents_env E) of (s', ob) \<Rightarrow> (E\<lparr>agents_env := s'\<rparr>, obsf ob))"

definition agents_Env_init ::
  "('s, 'o, 'a, 'v) gym_env \<Rightarrow> ('o \<Rightarrow> 'o) \<Rightarrow> 's \<Rightarrow> ('s, 'o, 'v) agents_Env" where
  "agents_Env_init G obsf s0 =
     (case env_reset G s0 of (s', ob) \<Rightarrow>
        \<lparr>agents_env = s', agents_transition = (obsf ob, 0, True, [])\<rparr>)"

definition agents_Env_step ::
  "('s, 'o, 'a, 'v) gym_env \<Rightarrow> ('o \<Rightarrow> 'o) \<Rightarrow> ('s, 'o, 'v) agents_Env \<Rightarrow> 'a \<Rightarrow>
     ('s, 'o, 'v) agents_Env \<times> ('o, 'v) transition" where
  "agents_Env_step G obsf E action =
     (case env_step G (agents_env E) action of (s1, next_state, reward, done, info) \<Rightarrow>
        let (E1, next_state') =
              (if done then agents_Env_reset G obsf (E\<lparr>agents_env := s1\<rparr>)
               else (E\<lparr>agents_env := s1\<rparr>, obsf next_state));
            E2 = E1\<lparr>agents_transition := (next_state', reward, done, info)\<rparr>
        in (E2, agents_transition E2))"

text \<open>
  A small concrete environment for evaluating the definitions: the state is a
  counter, the observation is the counter, an episode ends when the counter
  reaches 2, and \<open>reset\<close> sets the counter to 10.
\<close>

definition counter_env :: "(nat, nat, nat, nat) gym_env" where
  "counter_env =
     \<lparr>env_reset = (\<lambda>s. (10, 10)),
      env_step = (\<lambda>s a. (s + a, s + a, 1, s + a = 12, [(''steps'', a)]))\<rparr>"


section \<open>Construction of \<open>RandomDelayEnv\<close>\<close>

text \<open>
  \<open>RandomDelayEnv.__init__\<close> of \<^verbatim>\<open>src/rlrd/envs.py\<close> builds a stack of wrappers around
  \<^verbatim>\<open>gym.make(id)\<close> and hands it to \<open>Env.__init__\<close>. The wrapper classes come from
  \<^verbatim>\<open>rlrd/wrappers.py\<close> and \<^verbatim>\<open>rlrd/wrappers_rd.py\<close>, which are not among the sources:
  the stack is modelled as a term whose constructors are the wrapper classes, and the
  made environment by the attributes the constructor reads or writes.
\<close>

record gym_made =
  spec_id :: string
  unwrapped_frame_skip :: "int option"  \<comment> \<open>\<^verbatim>\<open>env.unwrapped.frame_skip\<close>, if the attribute exists\<close>
  max_episode_steps :: int  \<comment> \<open>\<^verbatim>\<open>_max_episode_steps\<close> of the \<open>TimeLimit\<close> wrapper\<close>
  action_space_is_Box :: bool

datatype wrapped_env =
    Gym gym_made
  | FrameSkip wrapped_env int int
      \<comment> \<open>\<^verbatim>\<open>FrameSkip(env, frame_skip, 1 / original_frame_skip)\<close>: the last argument is kept
         as the divisor \<open>original_frame_skip\<close>\<close>
  | Float64ToFloat32 wrapped_env
  | NormalizeActionWrapper wrapped_env
  | RandomDelayWrapper wrapped_env "int \<times> int" "int \<times> int"
      \<comment> \<open>the two \<^verbatim>\<open>range(start, stop)\<close> objects as pairs\<close>
  | WifiDelayWrapper1 wrapped_env
  | WifiDelayWrapper2 wrapped_env

datatype error = AssertionError | ZeroDivisionError | ConfigurationError | ContractViolation

record delay_ranges =
  min_observation_delay :: int
  sup_observation_delay :: int
  min_action_delay :: int
  sup_action_delay :: int

record RandomDelayEnv_args = delay_ranges +
  seed_val :: int
  env_id :: string
  frame_skip :: int
  real_world_sampler :: int

text \<open>The default values of the keyword arguments of \<open>RandomDelayEnv.__init__\<close>.\<close>

definition RandomDelayEnv_defaults :: RandomDelayEnv_args where
  "RandomDelayEnv_defaults =
     \<lparr>min_observation_delay = 0, sup_observation_delay = 8,
      min_action_delay = 0, sup_action_delay = 2,
      seed_val = 0, env_id = ''Pendulum-v0'', frame_skip = 0, real_world_sampler = 0\<rparr>"

text \<open>
  The condition under which the spec lets construction fail
  (``\<open>min \<ge> sup\<close> or \<open>min < 0\<close> for either delay kind'').
\<close>

definition invalid_ranges :: "int \<times> int \<Rightarrow> int \<times> int \<Rightarrow> bool" where
  "invalid_ranges obs_delay_range act_delay_range =
     (fst obs_delay_range \<ge> snd obs_delay_range \<or> fst obs_delay_range < 0 \<or>
      fst act_delay_range \<ge> snd act_delay_range \<or> fst act_delay_range < 0)"

text \<open>
  Modelled from the spec: the constructor of \<open>RandomDelayWrapper\<close>
  (\<^verbatim>\<open>rlrd/wrappers_rd.py\<close>) is missing from the sources. The spec (4.1, 7) says that
  construction of the uniform delay distribution fails with \<open>ConfigurationError\<close> if
  \<open>min \<ge> sup\<close> or \<open>min < 0\<close> for either delay kind, before any episode starts.
\<close>

definition RandomDelayWrapper_init ::
  "wrapped_env \<Rightarrow> int \<times> int \<Rightarrow> int \<times> int \<Rightarrow> error + wrapped_env" where
  "RandomDelayWrapper_init e obs_delay_range act_delay_range =
     (if invalid_ranges obs_delay_range act_delay_range then Inl ConfigurationError
      else Inr (RandomDelayWrapper e obs_delay_range act_delay_range))"

text \<open>
  Modelled from the spec: the constructors of \<open>WifiDelayWrapper1\<close> and
  \<open>WifiDelayWrapper2\<close> (\<^verbatim>\<open>rlrd/wrappers_rd.py\<close>) are missing from the sources. They are
  called with the environment alone; the spec (4.1) says that the parameters of the
  network-jitter variants are baked into the variant.
\<close>

definition WifiDelayWrapper1_init :: "wrapped_env \<Rightarrow> error + wrapped_env" where
  "WifiDelayWrapper1_init e = Inr (WifiDelayWrapper1 e)"

definition WifiDelayWrapper2_init :: "wrapped_env \<Rightarrow> error + wrapped_env" where
  "WifiDelayWrapper2_init e = Inr (WifiDelayWrapper2 e)"

text \<open>
  The frame-skip block:
  \<^verbatim>\<open>
  if frame_skip:
      original_frame_skip = getattr(env.unwrapped, 'frame_skip', 1)
      env.unwrapped.frame_skip = 1
      tl = get_wrapper_by_class(env, TimeLimit)
      tl._max_episode_steps = int(tl._max_episode_steps * original_frame_skip)
      env = FrameSkip(env, frame_skip, 1 / original_frame_skip)
  \<close>
\<close>

definition apply_frame_skip :: "gym_made \<Rightarrow> int \<Rightarrow> error + wrapped_env" where
  "apply_frame_skip m fs =
     (if fs \<noteq> 0 then
        (let original_frame_skip = (case unwrapped_frame_skip m of None \<Rightarrow> 1 | Some k \<Rightarrow> k);
             m' = m\<lparr>unwrapped_frame_skip := Some 1,
                    max_episode_steps := max_episode_steps m * original_frame_skip\<rparr>
         in if original_frame_skip = 0 then Inl ZeroDivisionError
            else Inr (FrameSkip (Gym m') fs original_frame_skip))
      else Inr (Gym m))"

text \<open>
  \<^verbatim>\<open>
  env = gym.make(id)
  if frame_skip: ...
  env = Float64ToFloat32(env)
  assert isinstance(env.action_space, gym.spaces.Box)
  env = NormalizeActionWrapper(env)
  if real_world_sampler == 0:
      env = RandomDelayWrapper(env, range(min_observation_delay, sup_observation_delay),
                               range(min_action_delay, sup_action_delay))
  elif real_world_sampler == 1:
      env = WifiDelayWrapper1(env)
  elif real_world_sampler == 2:
      env = WifiDelayWrapper2(env)
  else:
      assert False, f"invalid value for real_world_sampler:{real_world_sampler}"
  super().__init__(env)
  \<close>
  \<open>gym_make\<close> stands for \<^verbatim>\<open>gym.make\<close>. The result is the environment passed to
  \<open>Env.__init__\<close> (which resets it, see \<open>Env_init\<close>), or the exception raised before.
  The argument \<open>seed_val\<close> does not occur in the body.
\<close>

definition RandomDelayEnv_init ::
  "(string \<Rightarrow> gym_made) \<Rightarrow> RandomDelayEnv_args \<Rightarrow> error + wrapped_env" where
  "RandomDelayEnv_init gym_make c =
     (case apply_frame_skip (gym_make (env_id c)) (frame_skip c) of
        Inl ex \<Rightarrow> Inl ex
      | Inr e0 \<Rightarrow>
          let e1 = Float64ToFloat32 e0 in
          if \<not> action_space_is_Box (gym_make (env_id c)) then Inl AssertionError
          else
            let e2 = NormalizeActionWrapper e1 in
            if real_world_sampler c = 0 then
              RandomDelayWrapper_init e2
                (min_observation_delay c, sup_observation_delay c)
                (min_action_delay c, sup_action_delay c)
            else if real_world_sampler c = 1 then WifiDelayWrapper1_init e2
            else if real_world_sampler c = 2 then WifiDelayWrapper2_init e2
            else Inl AssertionError)"

text \<open>An environment factory for evaluating the constructor.\<close>

definition pendulum_make :: "string \<Rightarrow> gym_made" where
  "pendulum_make name =
     \<lparr>spec_id = name, unwrapped_frame_skip = None, max_episode_steps = 200,
      action_space_is_Box = True\<rparr>"


section \<open>The random-delay wrapper\<close>

text \<open>
  Modelled from the spec: the delay wrapper itself (\<open>RandomDelayWrapper\<close> and its
  variants, \<^verbatim>\<open>rlrd/wrappers_rd.py\<close>) is missing from the sources; only its call in
  \<open>RandomDelayEnv.__init__\<close> and the docstrings of its consumers are there. Every
  definition of this section follows sections 3 and 4 of the spec.
\<close>

subsection \<open>Data model (spec, section 3)\<close>

text \<open>
  Modelled from the spec: \<open>RawAction\<close> (a numeric vector), \<open>PendingAction\<close>,
  \<open>PendingObservation\<close> and \<open>AugmentedObservation\<close> with the fields section 3 lists;
  the raw observation is opaque (a type variable), ticks and delays are integers.
\<close>

type_synonym raw_action = "real list"

record pending_action =
  action :: raw_action
  sent_tick :: int
  scheduled_apply_tick :: int

record 'o pending_observation =
  observation :: 'o
  produced_tick :: int
  scheduled_delivery_tick :: int

record 'o augmented_observation =
  aug_observation :: 'o
  action_buffer_snapshot :: "raw_action list"
  observation_delay :: int
  action_delay :: int

subsection \<open>DelayDistribution (spec, 4.1)\<close>

text \<open>
  Modelled from the spec: two sampling operations over an internal random source,
  each call consuming exactly one unit of randomness. The random source is a state of
  type \<open>'g\<close> with an operation \<open>draw\<close> that yields one unit (a natural number) and the
  next state. A variant fixes how a unit is turned into a delay.
\<close>

record 'g delay_distribution =
  draw :: "'g \<Rightarrow> nat \<times> 'g"
  observation_delay_of :: "nat \<Rightarrow> int"
  action_delay_of :: "nat \<Rightarrow> int"

definition sample_observation_delay :: "'g delay_distribution \<Rightarrow> 'g \<Rightarrow> int \<times> 'g" where
  "sample_observation_delay D g = (case draw D g of (r, g') \<Rightarrow> (observation_delay_of D r, g'))"

definition sample_action_delay :: "'g delay_distribution \<Rightarrow> 'g \<Rightarrow> int \<times> 'g" where
  "sample_action_delay D g = (case draw D g of (r, g') \<Rightarrow> (action_delay_of D r, g'))"

text \<open>
  Modelled from the spec: the uniform variant ``draws each delay independently and
  uniformly from its configured half-open integer range \<open>[min, sup)\<close>''.
\<close>

definition Uniform :: "('g \<Rightarrow> nat \<times> 'g) \<Rightarrow> 'r delay_ranges_scheme \<Rightarrow> 'g delay_distribution" where
  "Uniform rnd R =
     \<lparr>draw = rnd,
      observation_delay_of =
        (\<lambda>r. min_observation_delay R + int r mod (sup_observation_delay R - min_observation_delay R)),
      action_delay_of =
        (\<lambda>r. min_action_delay R + int r mod (sup_action_delay R - min_action_delay R))\<rparr>"

text \<open>
  Modelled from the spec: ``construction fails with \<open>ConfigurationError\<close> if
  \<open>min \<ge> sup\<close> or \<open>min < 0\<close> for either delay kind''.
\<close>

definition Uniform_construct ::
  "('g \<Rightarrow> nat \<times> 'g) \<Rightarrow> 'r delay_ranges_scheme \<Rightarrow> error + 'g delay_distribution" where
  "Uniform_construct rnd R =
     (if invalid_ranges (min_observation_delay R, sup_observation_delay R)
                        (min_action_delay R, sup_action_delay R)
      then Inl ConfigurationError else Inr (Uniform rnd R))"

subsection \<open>RingActionBuffer (spec, 4.2)\<close>

text \<open>
  Modelled from the spec: ``\<open>push(action)\<close> appends at the tail and evicts the head if
  capacity \<open>K\<close> is exceeded; \<open>snapshot()\<close> returns the current ordered sequence without
  mutating it; \<open>reset(neutral_action)\<close> refills all \<open>K\<close> slots with the neutral
  action''.
\<close>

definition push :: "nat \<Rightarrow> raw_action \<Rightarrow> raw_action list \<Rightarrow> raw_action list" where
  "push k a buf = (let b = buf @ [a] in if k < length b then tl b else b)"

definition snapshot :: "raw_action list \<Rightarrow> raw_action list" where
  "snapshot buf = buf"

definition buffer_reset :: "nat \<Rightarrow> raw_action \<Rightarrow> raw_action list" where
  "buffer_reset k neutral_action = replicate k neutral_action"

subsection \<open>DelayEnvWrapper (spec, 4.3)\<close>

text \<open>
  Modelled from the spec: the parts of a wrapper instance that never change: the methods of the underlying
  environment, the delay distribution, the configured ranges and the dimension \<open>d\<close>
  of the action space.
\<close>

record ('s, 'o, 'v, 'g) DelayEnvWrapper =
  underlying_env :: "('s, 'o, raw_action, 'v) gym_env"
  distribution :: "'g delay_distribution"
  ranges :: delay_ranges
  action_dim :: nat

text \<open>
  Modelled from the spec: the mutable state of a wrapper that has been reset at least once (state \<open>READY\<close>).
  The state \<open>UNINITIALIZED\<close> is the pair of a random-source state and a state of the
  underlying environment from which \<open>DelayEnvWrapper_start\<close> performs the first reset;
  \<open>TERMINAL\<close> is passed through inside \<open>DelayEnvWrapper_step\<close>.
\<close>

record ('s, 'o, 'g) wrapper_state =
  tick :: int
  action_buffer :: "raw_action list"
  apply_schedule :: "pending_action list"
  observation_queue :: "'o pending_observation list"
  last_delivered :: 'o
  random_source :: 'g
  underlying :: 's

text \<open>
  Modelled from the spec: \<open>K = sup_observation_delay + sup_action_delay\<close>; the neutral
  action is the zero vector.
\<close>

definition K :: "('s, 'o, 'v, 'g) DelayEnvWrapper \<Rightarrow> nat" where
  "K W = nat (sup_observation_delay (ranges W) + sup_action_delay (ranges W))"

definition neutral_action :: "('s, 'o, 'v, 'g) DelayEnvWrapper \<Rightarrow> raw_action" where
  "neutral_action W = replicate (action_dim W) 0"

text \<open>
  Modelled from the spec: action resolution (step 3). A pending action is eligible when its
  \<open>scheduled_apply_tick\<close> is at most the current tick; among the eligible ones the one
  with the latest \<open>sent_tick\<close> is selected, ties broken by the latest
  \<open>scheduled_apply_tick\<close>. (Where two entries agree on both, the spec leaves the choice
  open; the later inserted one is taken.)
\<close>

definition eligible_action :: "int \<Rightarrow> pending_action \<Rightarrow> bool" where
  "eligible_action t p = (scheduled_apply_tick p \<le> t)"

definition at_least_as_late :: "pending_action \<Rightarrow> pending_action \<Rightarrow> bool" where
  "at_least_as_late q p =
     (sent_tick p < sent_tick q \<or>
      (sent_tick p = sent_tick q \<and> scheduled_apply_tick p \<le> scheduled_apply_tick q))"

fun latest_action :: "pending_action list \<Rightarrow> pending_action option" where
  "latest_action [] = None"
| "latest_action (p # ps) =
     (case latest_action ps of
        None \<Rightarrow> Some p
      | Some q \<Rightarrow> if at_least_as_late q p then Some q else Some p)"

definition resolve_action :: "int \<Rightarrow> pending_action list \<Rightarrow> pending_action option" where
  "resolve_action t schedule = latest_action (filter (eligible_action t) schedule)"

text \<open>
  Modelled from the spec: observation resolution (step 6). A queued observation is eligible when its
  \<open>scheduled_delivery_tick\<close> is at most the current tick; the one with the latest
  \<open>produced_tick\<close> is delivered.
\<close>

definition eligible_observation :: "int \<Rightarrow> 'o pending_observation \<Rightarrow> bool" where
  "eligible_observation t q = (scheduled_delivery_tick q \<le> t)"

fun freshest_observation :: "'o pending_observation list \<Rightarrow> 'o pending_observation option" where
  "freshest_observation [] = None"
| "freshest_observation (q # qs) =
     (case freshest_observation qs of
        None \<Rightarrow> Some q
      | Some q' \<Rightarrow> if produced_tick q \<le> produced_tick q' then Some q' else Some q)"

definition resolve_observation ::
  "int \<Rightarrow> 'o pending_observation list \<Rightarrow> 'o pending_observation option" where
  "resolve_observation t queue = freshest_observation (filter (eligible_observation t) queue)"

text \<open>
  Modelled from the spec: \<open>reset()\<close>. ``Reset underlying environment; reset tick counter to 0; reset action
  buffer to \<open>K\<close> neutral actions; clear pending-observation queue. Produce the initial
  \<open>AugmentedObservation\<close> using the fresh raw observation, the neutral action buffer,
  and delay fields set to a defined default (commonly the minimum configured delay, or
  zero)''. The default taken here is the minimum configured delay. The spec names no
  other component, so the apply-schedule and the random source are left as they are.
  The initial observation counts as the last delivered one (observation-hold
  scenario of section 8).
\<close>

definition reset_from ::
  "('s, 'o, 'v, 'g) DelayEnvWrapper \<Rightarrow> 's \<Rightarrow> 'g \<Rightarrow> pending_action list \<Rightarrow>
     ('s, 'o, 'g) wrapper_state \<times> 'o augmented_observation" where
  "reset_from W s g schedule =
     (case env_reset (underlying_env W) s of (s', ob) \<Rightarrow>
        let buf = buffer_reset (K W) (neutral_action W) in
        (\<lparr>tick = 0, action_buffer = buf, apply_schedule = schedule, observation_queue = [],
          last_delivered = ob, random_source = g, underlying = s'\<rparr>,
         \<lparr>aug_observation = ob, action_buffer_snapshot = snapshot buf,
          observation_delay = min_observation_delay (ranges W),
          action_delay = min_action_delay (ranges W)\<rparr>))"

definition DelayEnvWrapper_start ::
  "('s, 'o, 'v, 'g) DelayEnvWrapper \<Rightarrow> 'g \<Rightarrow> 's \<Rightarrow>
     ('s, 'o, 'g) wrapper_state \<times> 'o augmented_observation" where
  "DelayEnvWrapper_start W g0 s0 = reset_from W s0 g0 []"

definition DelayEnvWrapper_reset ::
  "('s, 'o, 'v, 'g) DelayEnvWrapper \<Rightarrow> ('s, 'o, 'g) wrapper_state \<Rightarrow>
     ('s, 'o, 'g) wrapper_state \<times> 'o augmented_observation" where
  "DelayEnvWrapper_reset W st = reset_from W (underlying st) (random_source st) (apply_schedule st)"

text \<open>
  What one \<open>step\<close> call does, recorded for the properties below: the pending action that was
  resolved (if any), the action executed on the underlying environment, the raw
  observation it produced, the observation delivered (step 6), the bundle assembled in
  step 7 and the tuple returned in step 10.
\<close>

record ('o, 'v) tick_report =
  resolved :: "pending_action option"
  resolved_action :: raw_action
  raw_observation :: 'o
  delivered :: 'o
  assembled :: "'o augmented_observation"
  returned :: "'o augmented_observation \<times> real \<times> bool \<times> 'v info"

text \<open>
  Modelled from the spec: \<open>step(action)\<close>, steps 1 to 10 of section 4.3. A shape mismatch between the action and the
  configured dimension is a \<open>ContractViolation\<close> ``surfaced immediately''. When the
  underlying environment reports \<open>done\<close>, the wrapper folds into an internal \<open>reset\<close>
  before returning and, mirroring \<open>Env.step\<close>, returns the post-reset bundle with the
  terminal reward, \<open>done\<close> and \<open>info\<close>. The underlying environment is total here:
  exceptions it raises (\<open>EnvironmentStepError\<close>) are outside the model.
\<close>

definition DelayEnvWrapper_step ::
  "('s, 'o, 'v, 'g) DelayEnvWrapper \<Rightarrow> ('s, 'o, 'g) wrapper_state \<Rightarrow> raw_action \<Rightarrow>
     error + (('s, 'o, 'g) wrapper_state \<times> ('o, 'v) tick_report)" where
  "DelayEnvWrapper_step W st a =
     (if length a \<noteq> action_dim W then Inl ContractViolation
      else
        case sample_action_delay (distribution W) (random_source st) of (act_delay, g1) \<Rightarrow>
        let t = tick st;
            schedule = apply_schedule st @
              [\<lparr>action = a, sent_tick = t, scheduled_apply_tick = t + act_delay\<rparr>];
            buf = push (K W) a (action_buffer st);
            res = resolve_action t schedule;
            ra = (case res of None \<Rightarrow> neutral_action W | Some p \<Rightarrow> action p);
            schedule' = filter (\<lambda>p. \<not> eligible_action t p) schedule
        in
        case env_step (underlying_env W) (underlying st) ra of
          (s', raw_obs, reward, done, info) \<Rightarrow>
        case sample_observation_delay (distribution W) g1 of (obs_delay, g2) \<Rightarrow>
        let queue = observation_queue st @
              [\<lparr>observation = raw_obs, produced_tick = t, scheduled_delivery_tick = t + obs_delay\<rparr>];
            dl = (case resolve_observation t queue of
                    None \<Rightarrow> last_delivered st | Some q \<Rightarrow> observation q);
            queue' = filter (\<lambda>q. \<not> eligible_observation t q) queue;
            aug = \<lparr>aug_observation = dl, action_buffer_snapshot = snapshot buf,
                   observation_delay = obs_delay, action_delay = act_delay\<rparr>;
            st1 = \<lparr>tick = t + 1, action_buffer = buf, apply_schedule = schedule',
                   observation_queue = queue', last_delivered = dl, random_source = g2,
                   underlying = s'\<rparr>;
            (st2, aug') = (if done then DelayEnvWrapper_reset W st1 else (st1, aug))
        in Inr (st2,
             \<lparr>resolved = res, resolved_action = ra, raw_observation = raw_obs, delivered = dl,
              assembled = aug, returned = (aug', reward, done, info)\<rparr>))"

text \<open>
  Modelled from the spec: a scripted action sequence (section 8). The state after the last \<open>step\<close> call and the reports
  of the successive calls.
\<close>

fun DelayEnvWrapper_run ::
  "('s, 'o, 'v, 'g) DelayEnvWrapper \<Rightarrow> ('s, 'o, 'g) wrapper_state \<Rightarrow> raw_action list \<Rightarrow>
     error + (('s, 'o, 'g) wrapper_state \<times> ('o, 'v) tick_report list)" where
  "DelayEnvWrapper_run W st [] = Inr (st, [])"
| "DelayEnvWrapper_run W st (a # as) =
     (case DelayEnvWrapper_step W st a of
        Inl ex \<Rightarrow> Inl ex
      | Inr (st', r) \<Rightarrow>
          (case DelayEnvWrapper_run W st' as of
             Inl ex \<Rightarrow> Inl ex
           | Inr (st'', rs) \<Rightarrow> Inr (st'', r # rs)))"

text \<open>The \<open>done\<close> flag of the tuple a \<open>step\<close> call returned.\<close>

definition report_done :: "('o, 'v) tick_report \<Rightarrow> bool" where
  "report_done r = (case returned r of (aug, reward, done, info) \<Rightarrow> done)"


text \<open>The reports of a run (none if a \<open>step\<close> call failed).\<close>

definition reports_of ::
  "error + (('s, 'o, 'g) wrapper_state \<times> ('o, 'v) tick_report list) \<Rightarrow> ('o, 'v) tick_report list" where
  "reports_of res = (case res of Inl ex \<Rightarrow> [] | Inr (st, rs) \<Rightarrow> rs)"




subsection \<open>Fixtures for evaluating the wrapper\<close>

text \<open>
  A random source that replays a script: its state is the list of the units still to
  be drawn (0 once the script is used up).
\<close>

definition scripted :: "nat list \<Rightarrow> nat \<times> nat list" where
  "scripted g = (case g of [] \<Rightarrow> (0, []) | r # rs \<Rightarrow> (r, rs))"

text \<open>
  An underlying environment whose state counts the steps of the episode: \<open>reset\<close>
  yields observation 0, the \<open>n\<close>-th step yields observation \<open>n\<close>, reward 1, and the
  episode is done at the fifth step.
\<close>

definition ramp_env :: "(nat, nat, raw_action, nat) gym_env" where
  "ramp_env =
     \<lparr>env_reset = (\<lambda>s. (0, 0)),
      env_step = (\<lambda>s a. (s + 1, s + 1, 1, s + 1 = 5, []))\<rparr>"

definition ramp_wrapper :: "delay_ranges \<Rightarrow> (nat, nat, nat, nat list) DelayEnvWrapper" where
  "ramp_wrapper R =
     \<lparr>underlying_env = ramp_env, distribution = Uniform scripted R, ranges = R, action_dim = 1\<rparr>"

text \<open>
  The configuration of the freshness scenario (\<open>K = 3\<close>) and the one of the
  observation-hold scenario (observation delays up to 3).
\<close>

definition freshness_ranges :: delay_ranges where
  "freshness_ranges =
     \<lparr>min_observation_delay = 0, sup_observation_delay = 1,
      min_action_delay = 0, sup_action_delay = 2\<rparr>"

definition hold_ranges :: delay_ranges where
  "hold_ranges =
     \<lparr>min_observation_delay = 0, sup_observation_delay = 4,
      min_action_delay = 0, sup_action_delay = 1\<rparr>"


section \<open>Properties of \<open>Env\<close>\<close>

text \<open>
  Claim C10. Constructing \<open>Env\<close> resets the wrapped environment, and right after
  construction the attribute \<open>transition\<close> is the 4-tuple (initial reset observation,
  reward 0.0, done True, empty info); after every \<open>step\<close> call the attribute is exactly
  the tuple that \<open>step\<close> returned. Stated for the class of \<^verbatim>\<open>src/rlrd/envs.py\<close> and for
  the one of \<^verbatim>\<open>src/agents/envs.py\<close>.
\<close>

theorem Env_transition_attribute:
  "env (Env_init G obsf s0 store) = fst (env_reset G s0) \<and>
   transition (Env_init G obsf s0 store) = (obsf (snd (env_reset G s0)), 0, True, []) \<and>
   transition (fst (Env_step G obsf dump E a)) = snd (Env_step G obsf dump E a) \<and>
   agents_env (agents_Env_init G obsf s0) = fst (env_reset G s0) \<and>
   agents_transition (agents_Env_init G obsf s0) = (obsf (snd (env_reset G s0)), 0, True, []) \<and>
   agents_transition (fst (agents_Env_step G obsf A a)) = snd (agents_Env_step G obsf A a)"
  by (simp add: Env_init_def Env_step_def agents_Env_init_def agents_Env_step_def Let_def
      split: prod.splits)

text \<open>
  Claim C7. When the wrapped environment returns \<open>done = True\<close>, \<open>Env.step\<close> resets it
  before returning, and the returned transition carries the post-reset observation
  together with the reward, \<open>done = True\<close> and the \<open>info\<close> dictionary of the terminal
  step. With \<open>store_env\<close> set, the class of \<^verbatim>\<open>src/rlrd/envs.py\<close> adds the key
  \<^verbatim>\<open>'env_state'\<close> to that dictionary and leaves every other key as it is; without it,
  and in \<^verbatim>\<open>src/agents/envs.py\<close>, the dictionary is returned unchanged.
\<close>

theorem Env_step_done_resets:
  assumes "env_step G s a = (s1, ns, r, True, info)"
    and "env E = s" and "agents_env A = s"
  shows "env (fst (Env_step G obsf dump E a)) = fst (env_reset G s1) \<and>
         (\<exists>info'. snd (Env_step G obsf dump E a) = (obsf (snd (env_reset G s1)), r, True, info') \<and>
            (\<not> store_env E \<longrightarrow> info' = info) \<and>
            (\<forall>k. k \<noteq> ''env_state'' \<longrightarrow> map_of info' k = map_of info k)) \<and>
         agents_env (fst (agents_Env_step G obsf A a)) = fst (env_reset G s1) \<and>
         snd (agents_Env_step G obsf A a) = (obsf (snd (env_reset G s1)), r, True, info)"
  using assms
  by (auto simp: Env_step_def Env_reset_def agents_Env_step_def agents_Env_reset_def Let_def
      update_conv split: prod.splits)

text \<open>
  Witness for C7: the counter environment ends its episode when the counter reaches
  12; the wrapper returns the post-reset observation 10 with the terminal reward and
  info.
\<close>

theorem Env_step_done_resets_witness:
  "env_step counter_env 10 2 = (12, 12, 1, True, [(''steps'', 2)]) \<and>
   snd (Env_step counter_env Env_observation (\<lambda>E. 7)
          (Env_init counter_env Env_observation 0 False) 2) = (10, 1, True, [(''steps'', 2)]) \<and>
   snd (agents_Env_step counter_env Env_observation
          (agents_Env_init counter_env Env_observation 0) 2) = (10, 1, True, [(''steps'', 2)])"
  using Env_step_done_resets [where G = counter_env and s = 10 and a = 2 and ?s1.0 = 12
      and ns = 12 and r = 1 and info = "[(''steps'', 2)]"
      and E = "Env_init counter_env Env_observation 0 False"
      and A = "agents_Env_init counter_env Env_observation 0"
      and obsf = Env_observation and dump = "\<lambda>E. 7"]
  by (simp add: counter_env_def Env_init_def agents_Env_init_def Env_observation_def)

section \<open>Properties of the construction of \<open>RandomDelayEnv\<close>\<close>

text \<open>
  Claim C9. With \<open>real_world_sampler\<close> 1 or 2 the four delay-range arguments do not
  reach the wrapper: whatever their values, the constructed environment is the same.
\<close>

theorem wifi_variants_ignore_ranges:
  assumes "real_world_sampler c = 1 \<or> real_world_sampler c = 2"
  shows "RandomDelayEnv_init gym_make
           (c\<lparr>min_observation_delay := a, sup_observation_delay := b,
              min_action_delay := a', sup_action_delay := b'\<rparr>) =
         RandomDelayEnv_init gym_make
           (c\<lparr>min_observation_delay := x, sup_observation_delay := y,
              min_action_delay := x', sup_action_delay := y'\<rparr>)"
  using assms by (auto simp: RandomDelayEnv_init_def Let_def split: sum.splits)

text \<open>Witness for C9: the default ranges and the ranges \<open>[3, 4)\<close>, \<open>[1, 5)\<close>.\<close>

theorem wifi_variants_ignore_ranges_witness:
  "RandomDelayEnv_init pendulum_make
     (RandomDelayEnv_defaults\<lparr>real_world_sampler := 1\<rparr>) =
   RandomDelayEnv_init pendulum_make
     (RandomDelayEnv_defaults\<lparr>min_observation_delay := 3, sup_observation_delay := 4,
        min_action_delay := 1, sup_action_delay := 5, real_world_sampler := 1\<rparr>)"
  using wifi_variants_ignore_ranges [where c = "RandomDelayEnv_defaults\<lparr>real_world_sampler := 1\<rparr>"
      and gym_make = pendulum_make and a = 0 and b = 8 and a' = 0 and b' = 2
      and x = 3 and y = 4 and x' = 1 and y' = 5]
  by (simp add: RandomDelayEnv_defaults_def)

text \<open>
  Claim C8 as stated (construction fails with \<open>ConfigurationError\<close> whenever
  \<open>min \<ge> sup\<close> or \<open>min < 0\<close> for either range) does not hold: with
  \<open>real_world_sampler = 1\<close>, the observation range \<open>[5, 1)\<close> is accepted and the
  environment is constructed.
\<close>

theorem invalid_ranges_accepted_counterexample:
  "invalid_ranges (5, 1) (0, 2) \<and>
   RandomDelayEnv_init pendulum_make
     (RandomDelayEnv_defaults\<lparr>min_observation_delay := 5, sup_observation_delay := 1,
        real_world_sampler := 1\<rparr>) =
   Inr (WifiDelayWrapper1 (NormalizeActionWrapper (Float64ToFloat32
          (Gym (pendulum_make ''Pendulum-v0'')))))"
  by (simp add: invalid_ranges_def RandomDelayEnv_init_def RandomDelayEnv_defaults_def
      apply_frame_skip_def pendulum_make_def WifiDelayWrapper1_init_def)

text \<open>
  Claim C8, amended. When \<open>real_world_sampler = 0\<close> and the construction steps before
  the delay wrapper succeed, construction fails with \<open>ConfigurationError\<close> whenever
  \<open>min \<ge> sup\<close> or \<open>min < 0\<close> holds for either range; the error is the result of
  \<open>RandomDelayEnv_init\<close>, so it is raised before \<open>Env.__init__\<close> resets the environment
  for the first time. Hence, whenever the delay wrapper is built under
  \<open>real_world_sampler = 0\<close>, \<open>0 \<le> min < sup\<close> holds for both ranges. When
  \<open>real_world_sampler\<close> is 1 or 2 the ranges are not passed to the wrapper: the result
  is the same for all values of the four range arguments, and it is not a
  \<open>ConfigurationError\<close>.
\<close>

theorem uniform_construction_validates:
  assumes "apply_frame_skip (gym_make (env_id c)) (frame_skip c) = Inr e0"
    and "action_space_is_Box (gym_make (env_id c))"
  shows "(real_world_sampler c = 0 \<and>
            (min_observation_delay c \<ge> sup_observation_delay c \<or> min_observation_delay c < 0 \<or>
             min_action_delay c \<ge> sup_action_delay c \<or> min_action_delay c < 0) \<longrightarrow>
            RandomDelayEnv_init gym_make c = Inl ConfigurationError) \<and>
         (real_world_sampler c = 0 \<and> RandomDelayEnv_init gym_make c = Inr e \<longrightarrow>
            0 \<le> min_observation_delay c \<and> min_observation_delay c < sup_observation_delay c \<and>
            0 \<le> min_action_delay c \<and> min_action_delay c < sup_action_delay c) \<and>
         (real_world_sampler c = 1 \<or> real_world_sampler c = 2 \<longrightarrow>
            RandomDelayEnv_init gym_make c \<noteq> Inl ConfigurationError \<and>
            RandomDelayEnv_init gym_make
              (c\<lparr>min_observation_delay := x, sup_observation_delay := y,
                 min_action_delay := x', sup_action_delay := y'\<rparr>) =
            RandomDelayEnv_init gym_make c)"
  using assms
  by (auto simp: RandomDelayEnv_init_def RandomDelayWrapper_init_def invalid_ranges_def
      WifiDelayWrapper1_init_def WifiDelayWrapper2_init_def Let_def split: if_splits)

text \<open>
  Witness for the amended C8: under the uniform sampler the range \<open>[5, 1)\<close> is refused
  and the default ranges pass the check; under \<open>real_world_sampler = 1\<close> the range
  \<open>[5, 1)\<close> gives the same result as the default ranges.
\<close>

theorem uniform_construction_validates_witness:
  "RandomDelayEnv_init pendulum_make
     (RandomDelayEnv_defaults\<lparr>min_observation_delay := 5, sup_observation_delay := 1\<rparr>) =
   Inl ConfigurationError \<and>
   RandomDelayEnv_init pendulum_make RandomDelayEnv_defaults =
   Inr (RandomDelayWrapper (NormalizeActionWrapper (Float64ToFloat32
          (Gym (pendulum_make ''Pendulum-v0'')))) (0, 8) (0, 2)) \<and>
   RandomDelayEnv_init pendulum_make
     (RandomDelayEnv_defaults\<lparr>min_observation_delay := 5, sup_observation_delay := 1,
        real_world_sampler := 1\<rparr>) =
   RandomDelayEnv_init pendulum_make (RandomDelayEnv_defaults\<lparr>real_world_sampler := 1\<rparr>)"
  using uniform_construction_validates [where gym_make = pendulum_make
      and c = "RandomDelayEnv_defaults\<lparr>min_observation_delay := 5, sup_observation_delay := 1\<rparr>"
      and ?e0.0 = "Gym (pendulum_make ''Pendulum-v0'')"]
    uniform_construction_validates [where gym_make = pendulum_make and c = RandomDelayEnv_defaults
      and ?e0.0 = "Gym (pendulum_make ''Pendulum-v0'')"
      and e = "RandomDelayWrapper (NormalizeActionWrapper (Float64ToFloat32
          (Gym (pendulum_make ''Pendulum-v0'')))) (0, 8) (0, 2)"]
    uniform_construction_validates [where gym_make = pendulum_make
      and c = "RandomDelayEnv_defaults\<lparr>real_world_sampler := 1\<rparr>"
      and ?e0.0 = "Gym (pendulum_make ''Pendulum-v0'')"
      and x = 5 and y = 1 and x' = 0 and y' = 2]
  by (simp add: RandomDelayEnv_defaults_def apply_frame_skip_def pendulum_make_def
      RandomDelayEnv_init_def RandomDelayWrapper_init_def invalid_ranges_def)

section \<open>Properties of the random-delay wrapper\<close>

subsection \<open>Resolution and the anatomy of a step\<close>



lemma freshest_observation_None: "(freshest_observation qs = None) = (qs = [])"
  by (induction qs) (auto split: option.splits)

lemma freshest_observation_Some:
  "freshest_observation qs = Some q \<Longrightarrow>
     q \<in> set qs \<and> (\<forall>x\<in>set qs. produced_tick x \<le> produced_tick q)"
proof (induction qs arbitrary: q)
  case Nil
  then show ?case by simp
next
  case (Cons x qs)
  then show ?case
    by (cases "freshest_observation qs") (fastforce simp: freshest_observation_None split: if_splits)+
qed


lemma DelayEnvWrapper_step_Inr:
  assumes "DelayEnvWrapper_step W st a = Inr (st', r)"
  obtains ad g1 s' ro rew dn inf od g2 st1 where
    "length a = action_dim W"
    "sample_action_delay (distribution W) (random_source st) = (ad, g1)"
    "env_step (underlying_env W) (underlying st) (resolved_action r) = (s', ro, rew, dn, inf)"
    "sample_observation_delay (distribution W) g1 = (od, g2)"
    "resolved r = resolve_action (tick st)
      (apply_schedule st @ [\<lparr>action = a, sent_tick = tick st, scheduled_apply_tick = tick st + ad\<rparr>])"
    "resolved_action r = (case resolved r of None \<Rightarrow> neutral_action W | Some p \<Rightarrow> action p)"
    "raw_observation r = ro"
    "delivered r =
      (case resolve_observation (tick st)
         (observation_queue st @
            [\<lparr>observation = ro, produced_tick = tick st, scheduled_delivery_tick = tick st + od\<rparr>]) of
         None \<Rightarrow> last_delivered st | Some q \<Rightarrow> observation q)"
    "assembled r = \<lparr>aug_observation = delivered r,
      action_buffer_snapshot = snapshot (push (K W) a (action_buffer st)),
      observation_delay = od, action_delay = ad\<rparr>"
    "tick st1 = tick st + 1"
    "action_buffer st1 = push (K W) a (action_buffer st)"
    "apply_schedule st1 = filter (\<lambda>p. \<not> eligible_action (tick st) p)
        (apply_schedule st @ [\<lparr>action = a, sent_tick = tick st, scheduled_apply_tick = tick st + ad\<rparr>])"
    "observation_queue st1 = filter (\<lambda>q. \<not> eligible_observation (tick st) q)
        (observation_queue st @
            [\<lparr>observation = ro, produced_tick = tick st, scheduled_delivery_tick = tick st + od\<rparr>])"
    "last_delivered st1 = delivered r"
    "random_source st1 = g2"
    "underlying st1 = s'"
    "st' = (if dn then fst (DelayEnvWrapper_reset W st1) else st1)"
    "returned r = ((if dn then snd (DelayEnvWrapper_reset W st1) else assembled r), rew, dn, inf)"
proof -
  have len: "length a = action_dim W"
    using assms by (cases "length a = action_dim W") (simp_all add: DelayEnvWrapper_step_def)
  obtain ad g1 where ad: "sample_action_delay (distribution W) (random_source st) = (ad, g1)"
    by (cases "sample_action_delay (distribution W) (random_source st)") auto
  define schedule where "schedule = apply_schedule st @
    [\<lparr>action = a, sent_tick = tick st, scheduled_apply_tick = tick st + ad\<rparr>]"
  define ra where "ra = (case resolve_action (tick st) schedule of
    None \<Rightarrow> neutral_action W | Some p \<Rightarrow> action p)"
  obtain s' ro rew dn inf where
    es: "env_step (underlying_env W) (underlying st) ra = (s', ro, rew, dn, inf)"
    by (cases "env_step (underlying_env W) (underlying st) ra") auto
  obtain od g2 where od: "sample_observation_delay (distribution W) g1 = (od, g2)"
    by (cases "sample_observation_delay (distribution W) g1") auto
  define queue where "queue = observation_queue st @
    [\<lparr>observation = ro, produced_tick = tick st, scheduled_delivery_tick = tick st + od\<rparr>]"
  define dl where "dl = (case resolve_observation (tick st) queue of
    None \<Rightarrow> last_delivered st | Some q \<Rightarrow> observation q)"
  define aug where "aug = \<lparr>aug_observation = dl,
      action_buffer_snapshot = snapshot (push (K W) a (action_buffer st)),
      observation_delay = od, action_delay = ad\<rparr>"
  define st1 where "st1 = \<lparr>tick = tick st + 1, action_buffer = push (K W) a (action_buffer st),
      apply_schedule = filter (\<lambda>p. \<not> eligible_action (tick st) p) schedule,
      observation_queue = filter (\<lambda>q. \<not> eligible_observation (tick st) q) queue,
      last_delivered = dl, random_source = g2, underlying = s'\<rparr>"
  have step: "DelayEnvWrapper_step W st a =
      (case (if dn then DelayEnvWrapper_reset W st1 else (st1, aug)) of (st2, aug') \<Rightarrow>
         Inr (st2, \<lparr>resolved = resolve_action (tick st) schedule, resolved_action = ra,
              raw_observation = ro, delivered = dl, assembled = aug,
              returned = (aug', rew, dn, inf)\<rparr>))"
    unfolding DelayEnvWrapper_step_def Let_def
    by (simp only: len ad es od prod.case schedule_def [symmetric] ra_def [symmetric]
        queue_def [symmetric] dl_def [symmetric] aug_def [symmetric] st1_def [symmetric]
        simp_thms if_False)
  have r: "r = \<lparr>resolved = resolve_action (tick st) schedule, resolved_action = ra,
              raw_observation = ro, delivered = dl, assembled = aug,
              returned = ((if dn then snd (DelayEnvWrapper_reset W st1) else aug), rew, dn, inf)\<rparr>"
    and st': "st' = (if dn then fst (DelayEnvWrapper_reset W st1) else st1)"
    using assms unfolding step by (cases dn; simp add: case_prod_beta)+
  show ?thesis
  proof (rule that [of ad g1 s' ro rew dn inf od g2 st1])
    show "env_step (underlying_env W) (underlying st) (resolved_action r) = (s', ro, rew, dn, inf)"
      using es by (simp add: r)
  qed (simp_all add: len ad od r st' ra_def schedule_def dl_def queue_def aug_def st1_def
        del: filter_append filter.simps)
qed


lemma run_Cons_Inr:
  "DelayEnvWrapper_run W st (a # as) = Inr (st'', rs) \<Longrightarrow>
     \<exists>st' r rs'. DelayEnvWrapper_step W st a = Inr (st', r) \<and>
        DelayEnvWrapper_run W st' as = Inr (st'', rs') \<and> rs = r # rs'"
  by (auto split: sum.splits prod.splits)

lemma reset_keeps:
  "apply_schedule (fst (DelayEnvWrapper_reset W st)) = apply_schedule st"
  "random_source (fst (DelayEnvWrapper_reset W st)) = random_source st"
  "underlying (fst (DelayEnvWrapper_reset W st)) = fst (env_reset (underlying_env W) (underlying st))"
  "tick (fst (DelayEnvWrapper_reset W st)) = 0"
  "observation_queue (fst (DelayEnvWrapper_reset W st)) = []"
  "action_buffer (fst (DelayEnvWrapper_reset W st)) = replicate (K W) (neutral_action W)"
  "last_delivered (fst (DelayEnvWrapper_reset W st)) = snd (env_reset (underlying_env W) (underlying st))"
  by (simp_all add: DelayEnvWrapper_reset_def reset_from_def buffer_reset_def Let_def
      split: prod.splits)



lemma step_tick:
  assumes "DelayEnvWrapper_step W st a = Inr (st', r)"
  shows "tick st' = (if report_done r then 0 else tick st + 1)"
proof -
  from assms obtain ad g1 s' ro rew dn inf od g2 st1 where
    "tick st1 = tick st + 1"
    "st' = (if dn then fst (DelayEnvWrapper_reset W st1) else st1)"
    "returned r = ((if dn then snd (DelayEnvWrapper_reset W st1) else assembled r), rew, dn, inf)"
    by (rule DelayEnvWrapper_step_Inr)
  then show ?thesis by (simp add: reset_keeps report_done_def)
qed




text \<open>Unfolding rules for evaluating the wrapper on the fixtures.\<close>

lemmas wrapper_eval =
  DelayEnvWrapper_step_def DelayEnvWrapper_start_def DelayEnvWrapper_reset_def reset_from_def
  sample_action_delay_def sample_observation_delay_def Uniform_def scripted_def ramp_env_def
  ramp_wrapper_def K_def neutral_action_def push_def snapshot_def buffer_reset_def
  resolve_action_def eligible_action_def at_least_as_late_def resolve_observation_def
  eligible_observation_def report_done_def reports_of_def Let_def

subsection \<open>Action resolution\<close>



subsection \<open>The action buffer\<close>

lemma push_length: "length buf = k \<Longrightarrow> length (push k a buf) = k"
  by (cases buf) (auto simp: push_def Let_def)

lemma reset_aug:
  "snd (DelayEnvWrapper_reset W st) =
     \<lparr>aug_observation = snd (env_reset (underlying_env W) (underlying st)),
      action_buffer_snapshot = replicate (K W) (neutral_action W),
      observation_delay = min_observation_delay (ranges W),
      action_delay = min_action_delay (ranges W)\<rparr>"
  by (simp add: DelayEnvWrapper_reset_def reset_from_def buffer_reset_def snapshot_def Let_def
      split: prod.splits)

lemma start_eq:
  "fst (DelayEnvWrapper_start W g s0) =
     \<lparr>tick = 0, action_buffer = replicate (K W) (neutral_action W), apply_schedule = [],
      observation_queue = [], last_delivered = snd (env_reset (underlying_env W) s0),
      random_source = g, underlying = fst (env_reset (underlying_env W) s0)\<rparr>"
  "snd (DelayEnvWrapper_start W g s0) =
     \<lparr>aug_observation = snd (env_reset (underlying_env W) s0),
      action_buffer_snapshot = replicate (K W) (neutral_action W),
      observation_delay = min_observation_delay (ranges W),
      action_delay = min_action_delay (ranges W)\<rparr>"
  by (simp_all add: DelayEnvWrapper_start_def reset_from_def buffer_reset_def snapshot_def Let_def
      split: prod.splits)

lemma step_buffer:
  assumes "DelayEnvWrapper_step W st a = Inr (st', r)" and "length (action_buffer st) = K W"
  shows "length (action_buffer st') = K W \<and>
         length (action_buffer_snapshot (assembled r)) = K W \<and>
         length (action_buffer_snapshot (fst (returned r))) = K W"
proof -
  from assms(1) obtain ad g1 s' ro rew dn inf od g2 st1 where
    "assembled r = \<lparr>aug_observation = delivered r,
      action_buffer_snapshot = snapshot (push (K W) a (action_buffer st)),
      observation_delay = od, action_delay = ad\<rparr>"
    "action_buffer st1 = push (K W) a (action_buffer st)"
    "st' = (if dn then fst (DelayEnvWrapper_reset W st1) else st1)"
    "returned r = ((if dn then snd (DelayEnvWrapper_reset W st1) else assembled r), rew, dn, inf)"
    by (rule DelayEnvWrapper_step_Inr)
  then show ?thesis
    using push_length [OF assms(2), of a]
    by (simp add: reset_keeps reset_aug snapshot_def)
qed

lemma run_buffer:
  assumes "DelayEnvWrapper_run W st acts = Inr (st', rs)" and "length (action_buffer st) = K W"
  shows "length (action_buffer st') = K W \<and>
         (\<forall>r\<in>set rs. length (action_buffer_snapshot (assembled r)) = K W \<and>
            length (action_buffer_snapshot (fst (returned r))) = K W)"
  using assms
proof (induction acts arbitrary: st rs)
  case Nil
  then show ?case by simp
next
  case (Cons a acts)
  from run_Cons_Inr [OF Cons.prems(1)] obtain st1 r rs' where
    s: "DelayEnvWrapper_step W st a = Inr (st1, r)"
    and run': "DelayEnvWrapper_run W st1 acts = Inr (st', rs')" and rs: "rs = r # rs'"
    by auto
  from step_buffer [OF s Cons.prems(2)] Cons.IH [OF run'] rs show ?case by simp
qed

text \<open>
  Claim C3. \<open>K = sup_observation_delay + sup_action_delay\<close>; \<open>push\<close> keeps a buffer of
  length \<open>K\<close> at length \<open>K\<close>, \<open>snapshot\<close> returns the buffer as it is and \<open>reset\<close>
  yields a buffer of length \<open>K\<close>; right after the first and after every later
  \<open>reset()\<close> the snapshot consists of \<open>K\<close> copies of the zero vector; and from every
  state whose buffer has length \<open>K\<close>, and so from the first reset, every \<open>step\<close> of a
  run assembles and returns a snapshot of length exactly \<open>K\<close>.
\<close>

theorem buffer_length_invariant:
  "K W = nat (sup_observation_delay (ranges W) + sup_action_delay (ranges W)) \<and>
   (length buf = k \<longrightarrow> length (push k a buf) = k) \<and>
   snapshot buf = buf \<and>
   length (buffer_reset k n) = k \<and>
   action_buffer_snapshot (snd (DelayEnvWrapper_start W g s0)) =
     replicate (K W) (replicate (action_dim W) 0) \<and>
   action_buffer_snapshot (snd (DelayEnvWrapper_reset W st)) =
     replicate (K W) (replicate (action_dim W) 0) \<and>
   length (action_buffer (fst (DelayEnvWrapper_start W g s0))) = K W \<and>
   length (action_buffer (fst (DelayEnvWrapper_reset W st))) = K W \<and>
   (length (action_buffer st0) = K W \<and> DelayEnvWrapper_run W st0 acts = Inr (st', rs) \<longrightarrow>
      length (action_buffer st') = K W \<and>
      (\<forall>r\<in>set rs. length (action_buffer_snapshot (assembled r)) = K W \<and>
         length (action_buffer_snapshot (fst (returned r))) = K W)) \<and>
   (DelayEnvWrapper_run W (fst (DelayEnvWrapper_start W g s0)) acts = Inr (st'', rs') \<longrightarrow>
      (\<forall>r\<in>set rs'. length (action_buffer_snapshot (fst (returned r))) = K W))"
  using run_buffer [of W st0 acts st' rs]
    run_buffer [of W "fst (DelayEnvWrapper_start W g s0)" acts st'' rs']
  by (simp add: K_def push_length snapshot_def buffer_reset_def start_eq reset_aug reset_keeps
      neutral_action_def)

text \<open>
  Witness for C3: with the ranges \<open>[0, 1)\<close> and \<open>[0, 2)\<close>, \<open>K = 3\<close>; the snapshot after
  reset is three zero vectors and both steps of a run return snapshots of length 3.
\<close>

theorem buffer_length_invariant_witness:
  "\<exists>st' r0 r1.
     DelayEnvWrapper_run (ramp_wrapper freshness_ranges)
       (fst (DelayEnvWrapper_start (ramp_wrapper freshness_ranges) [1, 0, 0, 0] 0))
       [[1 / 2], [- 1 / 2]] = Inr (st', [r0, r1]) \<and>
     K (ramp_wrapper freshness_ranges) = 3 \<and>
     action_buffer_snapshot (snd (DelayEnvWrapper_start (ramp_wrapper freshness_ranges) [1, 0, 0, 0] 0)) =
       [[0], [0], [0]] \<and>
     length (action_buffer_snapshot (fst (returned r0))) = 3 \<and>
     length (action_buffer_snapshot (fst (returned r1))) = 3 \<and>
     length (action_buffer st') = 3"
proof -
  define W where "W = ramp_wrapper freshness_ranges"
  define st0 where "st0 = fst (DelayEnvWrapper_start W [1, 0, 0, 0] 0)"
  have k: "K W = 3" "action_dim W = 1"
    by (simp_all add: W_def ramp_wrapper_def K_def freshness_ranges_def)
  have "\<exists>st' r0 r1. DelayEnvWrapper_run W st0 [[1 / 2], [- 1 / 2]] = Inr (st', [r0, r1])"
    by (simp add: st0_def W_def wrapper_eval freshness_ranges_def)
  then obtain st' r0 r1 where
    run: "DelayEnvWrapper_run W st0 [[1 / 2], [- 1 / 2]] = Inr (st', [r0, r1])"
    by blast
  from buffer_length_invariant [where W = W and g = "[1, 0, 0, 0]" and ?s0.0 = 0
      and ?st0.0 = st0 and acts = "[[1 / 2], [- 1 / 2]]" and st' = st' and rs = "[r0, r1]"]
    run k
  show ?thesis
    unfolding W_def [symmetric] st0_def [symmetric] by (auto simp: numeral_eq_Suc)
qed

subsection \<open>Sampled delays\<close>







subsection \<open>The zero-delay configuration\<close>






subsection \<open>Observation resolution\<close>

lemma step_observation_resolution:
  assumes "DelayEnvWrapper_step W st a = Inr (st', r)"
  shows "(let queue = observation_queue st @
              [\<lparr>observation = raw_observation r, produced_tick = tick st,
                scheduled_delivery_tick = tick st + observation_delay (assembled r)\<rparr>];
             eligible = filter (\<lambda>q. scheduled_delivery_tick q \<le> tick st) queue
         in (if eligible = [] then delivered r = last_delivered st
             else \<exists>q\<in>set eligible. delivered r = observation q \<and>
                    (\<forall>x\<in>set eligible. produced_tick x \<le> produced_tick q)) \<and>
            aug_observation (assembled r) = delivered r \<and>
            observation_queue st' =
              (if report_done r then []
               else filter (\<lambda>q. tick st < scheduled_delivery_tick q) queue) \<and>
            (\<not> report_done r \<longrightarrow>
               last_delivered st' = delivered r \<and> fst (returned r) = assembled r))"
proof -
  from assms obtain ad g1 s' ro rew dn inf od g2 st1 where
    ro: "raw_observation r = ro"
    and dl: "delivered r =
      (case resolve_observation (tick st)
         (observation_queue st @
            [\<lparr>observation = ro, produced_tick = tick st, scheduled_delivery_tick = tick st + od\<rparr>]) of
         None \<Rightarrow> last_delivered st | Some q \<Rightarrow> observation q)"
    and asm: "assembled r = \<lparr>aug_observation = delivered r,
      action_buffer_snapshot = snapshot (push (K W) a (action_buffer st)),
      observation_delay = od, action_delay = ad\<rparr>"
    and st1: "observation_queue st1 = filter (\<lambda>q. \<not> eligible_observation (tick st) q)
        (observation_queue st @
            [\<lparr>observation = ro, produced_tick = tick st, scheduled_delivery_tick = tick st + od\<rparr>])"
      "last_delivered st1 = delivered r"
    and st': "st' = (if dn then fst (DelayEnvWrapper_reset W st1) else st1)"
    and ret: "returned r = ((if dn then snd (DelayEnvWrapper_reset W st1) else assembled r), rew, dn, inf)"
    by (rule DelayEnvWrapper_step_Inr)
  define queue where "queue = observation_queue st @
     [\<lparr>observation = ro, produced_tick = tick st, scheduled_delivery_tick = tick st + od\<rparr>]"
  define eligible where "eligible = filter (\<lambda>q. scheduled_delivery_tick q \<le> tick st) queue"
  have od: "observation_delay (assembled r) = od" by (simp add: asm)
  have dn: "report_done r = dn" by (simp add: report_done_def ret)
  have dl': "delivered r = (case freshest_observation eligible of
      None \<Rightarrow> last_delivered st | Some q \<Rightarrow> observation q)"
    by (simp add: dl resolve_observation_def eligible_def queue_def
        eligible_observation_def [abs_def] del: filter_append filter.simps)
  have 1: "if eligible = [] then delivered r = last_delivered st
             else \<exists>q\<in>set eligible. delivered r = observation q \<and>
                    (\<forall>x\<in>set eligible. produced_tick x \<le> produced_tick q)"
  proof (cases "freshest_observation eligible")
    case None
    then show ?thesis using dl' by (simp add: freshest_observation_None)
  next
    case (Some q)
    from freshest_observation_Some [OF this] Some dl' show ?thesis by auto
  qed
  have 2: "aug_observation (assembled r) = delivered r" by (simp add: asm)
  have 3: "observation_queue st' =
              (if report_done r then []
               else filter (\<lambda>q. tick st < scheduled_delivery_tick q) queue)"
    by (simp add: dn st' st1 reset_keeps queue_def eligible_observation_def not_le
        del: filter_append filter.simps)
  have 4: "\<not> report_done r \<longrightarrow>
               last_delivered st' = delivered r \<and> fst (returned r) = assembled r"
    by (simp add: dn st' st1 ret)
  show ?thesis
    unfolding Let_def od ro using 1 2 3 4
    by (simp only: queue_def [symmetric] eligible_def [symmetric] simp_thms)
qed

lemma step_hold:
  assumes s: "DelayEnvWrapper_step W st a = Inr (st', r)"
    and nd: "\<not> report_done r"
    and q: "\<forall>q\<in>set (observation_queue st). tick st < scheduled_delivery_tick q"
    and d: "0 < observation_delay (assembled r)"
  shows "delivered r = last_delivered st \<and> last_delivered st' = last_delivered st \<and>
         tick st' = tick st + 1 \<and>
         observation_queue st' = observation_queue st @
           [\<lparr>observation = raw_observation r, produced_tick = tick st,
             scheduled_delivery_tick = tick st + observation_delay (assembled r)\<rparr>]"
proof -
  have f: "filter (\<lambda>q. scheduled_delivery_tick q \<le> tick st) (observation_queue st) = []"
    "filter (\<lambda>q. tick st < scheduled_delivery_tick q) (observation_queue st) = observation_queue st"
    using q by (auto simp: filter_empty_conv not_le intro: filter_True)
  from step_observation_resolution [OF s] step_tick [OF s] nd d f show ?thesis
    by (simp add: Let_def)
qed

lemma hold_scenario:
  assumes t0: "tick st0 = 0" and q0: "observation_queue st0 = []"
    and run: "DelayEnvWrapper_run W st0 [a0, a1, a2, a3] = Inr (st4, [r0, r1, r2, r3])"
    and nd: "\<not> report_done r0" "\<not> report_done r1" "\<not> report_done r2"
    and d0: "observation_delay (assembled r0) = 3"
    and d1: "3 \<le> observation_delay (assembled r1)"
    and d2: "2 \<le> observation_delay (assembled r2)"
    and d3: "1 \<le> observation_delay (assembled r3)"
  shows "delivered r0 = last_delivered st0 \<and> delivered r1 = last_delivered st0 \<and>
         delivered r2 = last_delivered st0 \<and> delivered r3 = raw_observation r0"
proof -
  from run_Cons_Inr [OF run] obtain st1 rs1 where
    s0: "DelayEnvWrapper_step W st0 a0 = Inr (st1, r0)"
    and run1: "DelayEnvWrapper_run W st1 [a1, a2, a3] = Inr (st4, rs1)" and rs1: "rs1 = [r1, r2, r3]"
    by auto
  from run_Cons_Inr [OF run1] rs1 obtain st2 rs2 where
    s1: "DelayEnvWrapper_step W st1 a1 = Inr (st2, r1)"
    and run2: "DelayEnvWrapper_run W st2 [a2, a3] = Inr (st4, rs2)" and rs2: "rs2 = [r2, r3]"
    by auto
  from run_Cons_Inr [OF run2] rs2 obtain st3 rs3 where
    s2: "DelayEnvWrapper_step W st2 a2 = Inr (st3, r2)"
    and run3: "DelayEnvWrapper_run W st3 [a3] = Inr (st4, rs3)" and rs3: "rs3 = [r3]"
    by auto
  from run_Cons_Inr [OF run3] rs3 have
    s3: "DelayEnvWrapper_step W st3 a3 = Inr (st4, r3)"
    by auto
  define e0 where "e0 = \<lparr>observation = raw_observation r0, produced_tick = 0,
      scheduled_delivery_tick = 3\<rparr>"
  define e1 where "e1 = \<lparr>observation = raw_observation r1, produced_tick = 1,
      scheduled_delivery_tick = 1 + observation_delay (assembled r1)\<rparr>"
  define e2 where "e2 = \<lparr>observation = raw_observation r2, produced_tick = 2,
      scheduled_delivery_tick = 2 + observation_delay (assembled r2)\<rparr>"
  from step_hold [OF s0 nd(1)] t0 q0 d0
  have 1: "delivered r0 = last_delivered st0" "last_delivered st1 = last_delivered st0"
    "tick st1 = 1" "observation_queue st1 = [e0]"
    by (simp_all add: e0_def)
  from step_hold [OF s1 nd(2)] 1 d1
  have 2: "delivered r1 = last_delivered st0" "last_delivered st2 = last_delivered st0"
    "tick st2 = 2" "observation_queue st2 = [e0, e1]"
    by (simp_all add: e0_def e1_def)
  from step_hold [OF s2 nd(3)] 2 d1 d2
  have 3: "delivered r2 = last_delivered st0" "last_delivered st3 = last_delivered st0"
    "tick st3 = 3" "observation_queue st3 = [e0, e1, e2]"
    by (simp_all add: e0_def e1_def e2_def)
  from step_observation_resolution [OF s3] 3 d1 d2 d3
  have "delivered r3 = raw_observation r0"
    by (simp add: Let_def e0_def e1_def e2_def)
  with 1 2 3 show ?thesis by simp
qed

text \<open>
  Claim C2 as stated does not hold. First, a delay of 3 sampled at tick 0 does not
  keep the initial observation in place up to tick 2: when the delay sampled at tick 1
  is 0, the observation produced at tick 1 is delivered at tick 1. Second, entries not
  yet eligible do not stay queued when the step ends the episode: the fifth step of
  the ramp environment is terminal, its observation is scheduled three ticks later,
  and the queue is empty after the step.
\<close>

theorem observation_hold_counterexample:
  "aug_observation (snd (DelayEnvWrapper_start (ramp_wrapper hold_ranges) [0, 3, 0, 0] 0)) = 0 \<and>
   map (\<lambda>r. observation_delay (assembled r))
     (reports_of (DelayEnvWrapper_run (ramp_wrapper hold_ranges)
        (fst (DelayEnvWrapper_start (ramp_wrapper hold_ranges) [0, 3, 0, 0] 0))
        [[0], [0]])) = [3, 0] \<and>
   map delivered
     (reports_of (DelayEnvWrapper_run (ramp_wrapper hold_ranges)
        (fst (DelayEnvWrapper_start (ramp_wrapper hold_ranges) [0, 3, 0, 0] 0))
        [[0], [0]])) = [0, 2] \<and>
   (case DelayEnvWrapper_run (ramp_wrapper hold_ranges)
           (fst (DelayEnvWrapper_start (ramp_wrapper hold_ranges)
              [0, 3, 0, 3, 0, 3, 0, 3, 0, 3] 0))
           [[0], [0], [0], [0], [0]] of
      Inl ex \<Rightarrow> False
    | Inr (st, rs) \<Rightarrow>
        map report_done rs = [False, False, False, False, True] \<and>
        map (\<lambda>r. observation_delay (assembled r)) rs = [3, 3, 3, 3, 3] \<and>
        observation_queue st = [])"
  by (simp add: wrapper_eval hold_ranges_def)

text \<open>
  Claim C2, amended. In every \<open>step\<close> call the queue is extended by the observation
  just produced; among the entries whose \<open>scheduled_delivery_tick\<close> is at most the
  current tick the one with the latest \<open>produced_tick\<close> is delivered, and if there is
  none the last delivered observation is repeated. Afterwards the queue holds exactly
  the entries not yet eligible, unless the step ends the episode, in which case the
  internal reset leaves it empty. After the first and after every later reset the tick is 0, the queue is empty and
  the last delivered observation is the post-reset initial observation. In the hold
  scenario: if the delay sampled at tick 0 is 3, the delays sampled at ticks 1, 2 and 3
  are at least 3, 2 and 1, and the episode does not end before tick 3, then the
  observations delivered at ticks 0, 1 and 2 equal the observation last delivered
  before and at tick 3 the observation produced at tick 0 is delivered.
\<close>

theorem observation_resolution:
  "(DelayEnvWrapper_step W st a = Inr (st', r) \<longrightarrow>
      (let queue = observation_queue st @
              [\<lparr>observation = raw_observation r, produced_tick = tick st,
                scheduled_delivery_tick = tick st + observation_delay (assembled r)\<rparr>];
           eligible = filter (\<lambda>q. scheduled_delivery_tick q \<le> tick st) queue
       in (if eligible = [] then delivered r = last_delivered st
           else \<exists>q\<in>set eligible. delivered r = observation q \<and>
                  (\<forall>x\<in>set eligible. produced_tick x \<le> produced_tick q)) \<and>
          aug_observation (assembled r) = delivered r \<and>
          observation_queue st' =
            (if report_done r then []
             else filter (\<lambda>q. tick st < scheduled_delivery_tick q) queue) \<and>
          (\<not> report_done r \<longrightarrow>
             last_delivered st' = delivered r \<and> fst (returned r) = assembled r))) \<and>
   tick (fst (DelayEnvWrapper_reset W st)) = 0 \<and>
   observation_queue (fst (DelayEnvWrapper_reset W st)) = [] \<and>
   last_delivered (fst (DelayEnvWrapper_reset W st)) =
     aug_observation (snd (DelayEnvWrapper_reset W st)) \<and>
   tick (fst (DelayEnvWrapper_start W g s0)) = 0 \<and>
   observation_queue (fst (DelayEnvWrapper_start W g s0)) = [] \<and>
   last_delivered (fst (DelayEnvWrapper_start W g s0)) =
     aug_observation (snd (DelayEnvWrapper_start W g s0)) \<and>
   (tick st0 = 0 \<and> observation_queue st0 = [] \<and>
    DelayEnvWrapper_run W st0 [a0, a1, a2, a3] = Inr (st4, [r0, r1, r2, r3]) \<and>
    \<not> report_done r0 \<and> \<not> report_done r1 \<and> \<not> report_done r2 \<and>
    observation_delay (assembled r0) = 3 \<and> 3 \<le> observation_delay (assembled r1) \<and>
    2 \<le> observation_delay (assembled r2) \<and> 1 \<le> observation_delay (assembled r3) \<longrightarrow>
      delivered r0 = last_delivered st0 \<and> delivered r1 = last_delivered st0 \<and>
      delivered r2 = last_delivered st0 \<and> delivered r3 = raw_observation r0)"
proof (intro conjI impI)
  assume "DelayEnvWrapper_step W st a = Inr (st', r)"
  then show "let queue = observation_queue st @
              [\<lparr>observation = raw_observation r, produced_tick = tick st,
                scheduled_delivery_tick = tick st + observation_delay (assembled r)\<rparr>];
           eligible = filter (\<lambda>q. scheduled_delivery_tick q \<le> tick st) queue
       in (if eligible = [] then delivered r = last_delivered st
           else \<exists>q\<in>set eligible. delivered r = observation q \<and>
                  (\<forall>x\<in>set eligible. produced_tick x \<le> produced_tick q)) \<and>
          aug_observation (assembled r) = delivered r \<and>
          observation_queue st' =
            (if report_done r then []
             else filter (\<lambda>q. tick st < scheduled_delivery_tick q) queue) \<and>
          (\<not> report_done r \<longrightarrow>
             last_delivered st' = delivered r \<and> fst (returned r) = assembled r)"
    by (rule step_observation_resolution)
qed (use hold_scenario [of st0 W a0 a1 a2 a3 st4 r0 r1 r2 r3] in
      \<open>simp_all add: reset_keeps reset_aug start_eq\<close>)

text \<open>
  Witness for the amended C2: all observation delays are 3; the initial observation 0
  is delivered at ticks 0, 1 and 2, and the observation 1 produced at tick 0 at tick 3.
\<close>

theorem observation_resolution_witness:
  "\<exists>st4 r0 r1 r2 r3.
     DelayEnvWrapper_run (ramp_wrapper hold_ranges)
       (fst (DelayEnvWrapper_start (ramp_wrapper hold_ranges) [0, 3, 0, 3, 0, 3, 0, 3] 0))
       [[0], [0], [0], [0]] = Inr (st4, [r0, r1, r2, r3]) \<and>
     aug_observation (snd (DelayEnvWrapper_start (ramp_wrapper hold_ranges)
       [0, 3, 0, 3, 0, 3, 0, 3] 0)) = 0 \<and>
     observation_delay (assembled r0) = 3 \<and> observation_delay (assembled r1) = 3 \<and>
     observation_delay (assembled r2) = 3 \<and> observation_delay (assembled r3) = 3 \<and>
     raw_observation r0 = 1 \<and>
     delivered r0 = 0 \<and> delivered r1 = 0 \<and> delivered r2 = 0 \<and> delivered r3 = 1"
proof -
  define W where "W = ramp_wrapper hold_ranges"
  define st0 where "st0 = fst (DelayEnvWrapper_start W [0, 3, 0, 3, 0, 3, 0, 3] 0)"
  have st0: "tick st0 = 0" "observation_queue st0 = []" "last_delivered st0 = 0"
    "aug_observation (snd (DelayEnvWrapper_start W [0, 3, 0, 3, 0, 3, 0, 3] 0)) = 0"
    by (simp_all add: st0_def W_def wrapper_eval hold_ranges_def)
  have "\<exists>st4 r0 r1 r2 r3.
     DelayEnvWrapper_run W st0 [[0], [0], [0], [0]] = Inr (st4, [r0, r1, r2, r3]) \<and>
     \<not> report_done r0 \<and> \<not> report_done r1 \<and> \<not> report_done r2 \<and>
     observation_delay (assembled r0) = 3 \<and> observation_delay (assembled r1) = 3 \<and>
     observation_delay (assembled r2) = 3 \<and> observation_delay (assembled r3) = 3 \<and>
     raw_observation r0 = 1"
    by (simp add: st0_def W_def wrapper_eval hold_ranges_def)
  then obtain st4 r0 r1 r2 r3 where
    run: "DelayEnvWrapper_run W st0 [[0], [0], [0], [0]] = Inr (st4, [r0, r1, r2, r3])"
    and h: "\<not> report_done r0" "\<not> report_done r1" "\<not> report_done r2"
      "observation_delay (assembled r0) = 3" "observation_delay (assembled r1) = 3"
      "observation_delay (assembled r2) = 3" "observation_delay (assembled r3) = 3"
      "raw_observation r0 = 1"
    by blast
  from observation_resolution [where W = W and ?st0.0 = st0 and ?a0.0 = "[0]" and ?a1.0 = "[0]"
      and ?a2.0 = "[0]" and ?a3.0 = "[0]" and ?st4.0 = st4 and ?r0.0 = r0 and ?r1.0 = r1
      and ?r2.0 = r2 and ?r3.0 = r3] st0 run h
  show ?thesis
    unfolding W_def [symmetric] st0_def [symmetric] by auto
qed

subsection \<open>Replay\<close>




end
